theory Spec2Isabelle
  imports Complex_Main
begin

section \<open>The conversation state of \<open>src/index.ts\<close>\<close>

text \<open>
  The class \<open>AgentState\<close> keeps two records in the storage of one Durable Object (one
  object per session): the key \<open>"messages"\<close> holds the message list and the key
  \<open>"analytics"\<close> holds the running statistics. Each method reads and writes these two
  keys only, so a method is a function from storage to storage. \<open>Date.now()\<close> is an input of
  \<open>addMessage\<close>: the clock reading taken at the call.

  Numbers: \<open>Date.now()\<close> is a whole number of milliseconds, of magnitude at most
  8.64e15 and so below \<open>2^53\<close>: clock readings, and the differences of positive ones, are
  exact as doubles, and a timestamp is an \<open>int\<close>. The three counters start at 0 and are
  only ever incremented, so they are \<open>nat\<close> (they stay far below \<open>2^53\<close> as well). \<open>averageResponseTime\<close> is a JavaScript number, a binary64 double: its value is
  a rational, and each multiplication, addition and division of the update that
  computes it is rounded to the nearest double (\<open>fl\<close> below).
\<close>

subsection \<open>Data\<close>

datatype Role = User | Assistant | System

record Message =
  role :: Role
  content :: string
  timestamp :: "int option"

record Analytics =
  totalMessages :: nat
  userMessages :: nat
  assistantMessages :: nat
  averageResponseTime :: rat
  firstMessageTime :: "int option"
  lastMessageTime :: "int option"

text \<open>The two storage keys; \<open>None\<close> is a key that was never written.\<close>

record Storage =
  messages :: "Message list option"
  analytics :: "Analytics option"

definition emptyStorage :: Storage where
  "emptyStorage = \<lparr>messages = None, analytics = None\<rparr>"

text \<open>
  The object literal that \<open>clearMessages\<close> stores and \<open>getAnalytics\<close> falls back to: four
  zero counters, the two optional fields absent.
\<close>

definition zeroAnalytics :: Analytics where
  "zeroAnalytics =
     \<lparr>totalMessages = 0, userMessages = 0, assistantMessages = 0,
      averageResponseTime = 0, firstMessageTime = None, lastMessageTime = None\<rparr>"

text \<open>
  JavaScript truthiness of an optional number, as used by \<open>!analytics.firstMessageTime\<close>
  and by \<open>lastUserMessage?.timestamp && message.timestamp\<close>: \<open>undefined\<close> and \<open>0\<close> are
  both falsy.
\<close>

fun truthy :: "int option \<Rightarrow> bool" where
  "truthy None = False"
| "truthy (Some t) = (t \<noteq> 0)"

subsection \<open>Double arithmetic\<close>

text \<open>
  A JavaScript arithmetic operation returns the exact result rounded to the nearest
  binary64 value, ties going to the even significand. A double has a significand of 53
  bits; the unit in the last place of a value between \<open>2^e\<close> and \<open>2^(e+1)\<close> is
  \<open>2^(e-52)\<close>, and never less than \<open>2^(-1074)\<close> (the subnormal range). Results of
  magnitude \<open>2^1024\<close> or more, which JavaScript turns into \<open>Infinity\<close>, are outside
  this model: \<open>double\<close> below excludes them.
\<close>

text \<open>The number of binary digits of a natural number.\<close>

fun bitlen :: "nat \<Rightarrow> nat" where
  "bitlen n = (if n = 0 then 0 else Suc (bitlen (n div 2)))"

declare bitlen.simps [simp del]

definition pow2 :: "int \<Rightarrow> rat" where
  "pow2 e = (if 0 \<le> e then 2 ^ nat e else 1 / 2 ^ nat (- e))"

text \<open>
  For a positive rational \<open>a\<close>, the exponent \<open>e\<close> with \<open>2^e \<le> a < 2^(e+1)\<close>: the digit
  count of the integer part of \<open>a\<close> or of \<open>1 / a\<close> gives it up to one, and a comparison
  settles it.
\<close>

definition ilog2 :: "rat \<Rightarrow> int" where
  "ilog2 a =
     (let k = (if 1 \<le> a then int (bitlen (nat \<lfloor>a\<rfloor>)) - 1
               else 1 - int (bitlen (nat \<lfloor>1 / a\<rfloor>)))
      in if pow2 k \<le> a then k else k - 1)"

text \<open>Rounding to the nearest integer, a tie going to the even one.\<close>

definition roundEven :: "rat \<Rightarrow> int" where
  "roundEven q =
     (let f = \<lfloor>q\<rfloor>; r = q - of_int f
      in if r < 1 / 2 then f
         else if 1 / 2 < r then f + 1
         else if even f then f else f + 1)"

definition fl :: "rat \<Rightarrow> rat" where
  "fl x =
     (if x = 0 then 0
      else (let u = pow2 (max (ilog2 \<bar>x\<bar> - 52) (- 1074))
            in sgn x * of_int (roundEven (\<bar>x\<bar> / u)) * u))"


subsection \<open>The methods of \<open>AgentState\<close>\<close>

text \<open>\<open>get("messages") || []\<close>: a stored array, even an empty one, is truthy.\<close>

definition getMessages :: "Storage \<Rightarrow> Message list" where
  "getMessages s = (case messages s of None \<Rightarrow> [] | Some ms \<Rightarrow> ms)"

definition getAnalytics :: "Storage \<Rightarrow> Analytics" where
  "getAnalytics s = (case analytics s of None \<Rightarrow> zeroAnalytics | Some a \<Rightarrow> a)"

definition clearMessages :: "Storage \<Rightarrow> Storage" where
  "clearMessages s = s\<lparr>messages := Some [], analytics := Some zeroAnalytics\<rparr>"

text \<open>
  The block under \<open>// Calculate response time\<close>: with at least two stored messages, the
  last message of role \<open>user\<close> is looked up from the end of the list, and the difference
  of the two timestamps is taken when both are truthy. The result is \<open>None\<close> on every
  path that does not reach the assignment of \<open>responseTime\<close>.
\<close>

definition responseTime :: "Message \<Rightarrow> Message list \<Rightarrow> int option" where
  "responseTime message ms =
     (if length ms \<ge> 2 then
        (case find (\<lambda>m. role m = User) (rev ms) of
           None \<Rightarrow> None
         | Some lastUserMessage \<Rightarrow>
             (case (timestamp lastUserMessage, timestamp message) of
                (Some tu, Some t) \<Rightarrow>
                   if truthy (Some tu) \<and> truthy (Some t) then Some (t - tu) else None
              | _ \<Rightarrow> None))
      else None)"

definition updateAnalytics :: "Message \<Rightarrow> Storage \<Rightarrow> Storage" where
  "updateAnalytics message s =
     (let a0 = getAnalytics s;
          a1 = a0\<lparr>totalMessages := totalMessages a0 + 1\<rparr>;
          a2 =
            (if role message = User then
               (let b1 = a1\<lparr>userMessages := userMessages a1 + 1\<rparr>;
                    b2 = b1\<lparr>lastMessageTime := timestamp message\<rparr>
                in if \<not> truthy (firstMessageTime b2)
                   then b2\<lparr>firstMessageTime := timestamp message\<rparr>
                   else b2)
             else if role message = Assistant then
               (let b1 = a1\<lparr>assistantMessages := assistantMessages a1 + 1\<rparr>
                in case responseTime message (getMessages s) of
                     None \<Rightarrow> b1
                   | Some d \<Rightarrow>
                       b1\<lparr>averageResponseTime :=
                            fl (fl (fl (averageResponseTime b1
                                          * of_nat (assistantMessages b1 - 1))
                                    + of_int d)
                                / of_nat (assistantMessages b1))\<rparr>)
             else a1)
      in s\<lparr>analytics := Some a2\<rparr>)"

text \<open>
  \<open>addMessage\<close>: the caller's message gets the clock reading \<open>now\<close> as its timestamp, is
  pushed onto the list, the list is stored, and the analytics are updated from the
  storage as it then stands.
\<close>

definition addMessage :: "int \<Rightarrow> Message \<Rightarrow> Storage \<Rightarrow> Storage" where
  "addMessage now message s =
     (let ms = getMessages s;
          message' = message\<lparr>timestamp := Some now\<rparr>;
          ms' = ms @ [message'];
          s' = s\<lparr>messages := Some ms'\<rparr>
      in updateAnalytics message' s')"

subsection \<open>Sequences of appends\<close>

text \<open>
  A run of the session: each element is one call of \<open>addMessage\<close>, the clock reading at
  the call paired with the message passed in. Calls are executed one after the other.
\<close>

fun appends :: "(int \<times> Message) list \<Rightarrow> Storage \<Rightarrow> Storage" where
  "appends [] s = s"
| "appends ((now, m) # rest) s = appends rest (addMessage now m s)"

text \<open>
  The object literal \<open>{ role, content }\<close> that the fetch handler passes to \<open>addMessage\<close>:
  no timestamp.
\<close>

definition msg :: "Role \<Rightarrow> string \<Rightarrow> Message" where
  "msg r c = \<lparr>role = r, content = c, timestamp = None\<rparr>"

text \<open>The message as \<open>addMessage\<close> stores it at clock reading \<open>now\<close>.\<close>

definition stamp :: "int \<times> Message \<Rightarrow> Message" where
  "stamp p = (snd p)\<lparr>timestamp := Some (fst p)\<rparr>"

definition systemAppends :: "(int \<times> Message) list \<Rightarrow> nat" where
  "systemAppends inputs = length (filter (\<lambda>p. role (snd p) = System) inputs)"

definition assistantAppends :: "(int \<times> Message) list \<Rightarrow> nat" where
  "assistantAppends inputs = length (filter (\<lambda>p. role (snd p) = Assistant) inputs)"

subsection \<open>The response times of a run, as the specification words them\<close>



text \<open>
  What \<open>[...messages].reverse().find(m => m.role === "user")?.timestamp\<close> reads from a
  storage: the timestamp of the last stored user message.
\<close>

definition lastUserStamp :: "Storage \<Rightarrow> int option" where
  "lastUserStamp s =
     (case find (\<lambda>m. role m = User) (rev (getMessages s)) of
        None \<Rightarrow> None
      | Some u \<Rightarrow> timestamp u)"


text \<open>Timestamps present and non-decreasing along a stored message list.\<close>

definition nonDecreasing :: "Message list \<Rightarrow> bool" where
  "nonDecreasing ms =
     sorted_wrt (\<lambda>a b. case (timestamp a, timestamp b) of
                          (Some x, Some y) \<Rightarrow> x \<le> y
                        | _ \<Rightarrow> False) ms"

subsection \<open>Two runs\<close>



section \<open>Reading a fresh session\<close>

text \<open>
  C8. On a session with no stored state, \<open>getMessages\<close> returns the empty list (a value,
  not a failure) and \<open>getAnalytics\<close> returns the zeroed default.
\<close>

theorem fresh_session_reads:
  "getMessages emptyStorage = [] \<and> getAnalytics emptyStorage = zeroAnalytics"
  by (simp add: getMessages_def getAnalytics_def emptyStorage_def)

section \<open>Clearing\<close>

lemma clearMessages_reads:
  "getMessages (clearMessages s) = []" "getAnalytics (clearMessages s) = zeroAnalytics"
  by (simp_all add: getMessages_def getAnalytics_def clearMessages_def)

text \<open>
  C6. After any number of appends, of any roles and at any clock readings, to an empty
  session, \<open>clearMessages\<close> leaves a history of length 0 and analytics whose four counters
  are 0 and whose two optional fields are unset.
\<close>

theorem clear_after_appends:
  "length (getMessages (clearMessages (appends inputs emptyStorage))) = 0
   \<and> getAnalytics (clearMessages (appends inputs emptyStorage)) = zeroAnalytics
   \<and> totalMessages zeroAnalytics = 0 \<and> userMessages zeroAnalytics = 0
   \<and> assistantMessages zeroAnalytics = 0 \<and> averageResponseTime zeroAnalytics = 0
   \<and> firstMessageTime zeroAnalytics = None \<and> lastMessageTime zeroAnalytics = None"
  by (simp add: clearMessages_reads zeroAnalytics_def)

text \<open>
  C10. \<open>clearMessages\<close> is idempotent, and what it stores does not depend on what was
  stored before: any two storages are cleared to the same one.
\<close>

theorem clearMessages_idempotent:
  "clearMessages (clearMessages s) = clearMessages s
   \<and> clearMessages s = clearMessages s'
   \<and> messages (clearMessages s) = Some [] \<and> analytics (clearMessages s) = Some zeroAnalytics"
  by (simp add: clearMessages_def)

lemma getMessages_emptyStorage: "getMessages emptyStorage = []"
  by (simp add: getMessages_def emptyStorage_def)

section \<open>One append\<close>

text \<open>What one call of \<open>addMessage\<close> does to each stored field, on any storage.\<close>

lemma getMessages_addMessage:
  "getMessages (addMessage now m s) = getMessages s @ [stamp (now, m)]"
  by (simp add: addMessage_def updateAnalytics_def getMessages_def stamp_def Let_def)

lemma totalMessages_addMessage:
  "totalMessages (getAnalytics (addMessage now m s)) = totalMessages (getAnalytics s) + 1"
  by (simp add: addMessage_def updateAnalytics_def Let_def getAnalytics_def
           split: option.splits)

lemma userMessages_addMessage:
  "userMessages (getAnalytics (addMessage now m s)) =
     userMessages (getAnalytics s) + (if role m = User then 1 else 0)"
  by (simp add: addMessage_def updateAnalytics_def Let_def getAnalytics_def
           split: option.splits)

lemma assistantMessages_addMessage:
  "assistantMessages (getAnalytics (addMessage now m s)) =
     assistantMessages (getAnalytics s) + (if role m = Assistant then 1 else 0)"
  by (simp add: addMessage_def updateAnalytics_def Let_def getAnalytics_def
           split: option.splits)

lemma firstMessageTime_addMessage:
  "firstMessageTime (getAnalytics (addMessage now m s)) =
     (if role m = User \<and> \<not> truthy (firstMessageTime (getAnalytics s))
      then Some now else firstMessageTime (getAnalytics s))"
  by (simp add: addMessage_def updateAnalytics_def Let_def getAnalytics_def
           split: option.splits)

lemma averageResponseTime_addMessage:
  "averageResponseTime (getAnalytics (addMessage now m s)) =
     (if role m = Assistant then
        (case responseTime (stamp (now, m)) (getMessages s @ [stamp (now, m)]) of
           None \<Rightarrow> averageResponseTime (getAnalytics s)
         | Some d \<Rightarrow>
             fl (fl (fl (averageResponseTime (getAnalytics s)
                           * of_nat (assistantMessages (getAnalytics s)))
                     + of_int d)
                 / of_nat (assistantMessages (getAnalytics s) + 1)))
      else averageResponseTime (getAnalytics s))"
  by (simp add: addMessage_def updateAnalytics_def Let_def getAnalytics_def
           getMessages_def stamp_def split: option.splits)


lemma lastUserStamp_addMessage:
  "lastUserStamp (addMessage now m s) = (if role m = User then Some now else lastUserStamp s)"
  by (simp add: lastUserStamp_def getMessages_addMessage stamp_def)

lemma lastUserStamp_no_user:
  assumes "\<forall>x \<in> set (getMessages s). role x \<noteq> User"
  shows "lastUserStamp s = None"
proof -
  have "find (\<lambda>x. role x = User) (rev (getMessages s)) = None"
    using assms unfolding find_None_iff by simp
  then show ?thesis by (simp add: lastUserStamp_def)
qed

lemma responseTime_lastUserStamp:
  assumes "role m = Assistant"
  shows "responseTime (stamp (now, m)) (getMessages s @ [stamp (now, m)]) =
           (case lastUserStamp s of
              None \<Rightarrow> None
            | Some tu \<Rightarrow> if tu \<noteq> 0 \<and> now \<noteq> 0 then Some (now - tu) else None)"
proof (cases "find (\<lambda>x. role x = User) (rev (getMessages s))")
  case None
  with assms show ?thesis
    by (simp add: responseTime_def lastUserStamp_def stamp_def)
next
  case (Some u)
  then have "getMessages s \<noteq> []" by auto
  then have "2 \<le> length (getMessages s @ [stamp (now, m)])"
    by (cases "getMessages s") simp_all
  with assms Some show ?thesis
    by (simp add: responseTime_def lastUserStamp_def stamp_def split: option.splits)
qed

lemma averageResponseTime_not_assistant:
  "role m \<noteq> Assistant \<Longrightarrow>
   averageResponseTime (getAnalytics (addMessage now m s)) = averageResponseTime (getAnalytics s)"
  by (simp add: averageResponseTime_addMessage)

lemma averageResponseTime_unpaired:
  "role m = Assistant \<Longrightarrow> lastUserStamp s = None \<Longrightarrow>
   averageResponseTime (getAnalytics (addMessage now m s)) = averageResponseTime (getAnalytics s)"
  by (simp add: averageResponseTime_addMessage responseTime_lastUserStamp)

lemma averageResponseTime_paired:
  assumes "role m = Assistant" "lastUserStamp s = Some tu" "tu \<noteq> 0" "now \<noteq> 0"
  shows "averageResponseTime (getAnalytics (addMessage now m s)) =
           fl (fl (fl (averageResponseTime (getAnalytics s)
                         * of_nat (assistantMessages (getAnalytics s)))
                   + of_int (now - tu))
               / of_nat (assistantMessages (getAnalytics s) + 1))"
  using assms by (simp add: averageResponseTime_addMessage responseTime_lastUserStamp)

lemma fl_zero: "fl 0 = 0"
  by (simp add: fl_def)

section \<open>Runs of appends\<close>

lemma getMessages_appends:
  "getMessages (appends inputs s) = getMessages s @ map stamp inputs"
proof (induction inputs arbitrary: s)
  case Nil
  show ?case by simp
next
  case (Cons p rest)
  obtain now m where p: "p = (now, m)" by (cases p)
  show ?case by (simp add: p Cons.IH getMessages_addMessage)
qed

lemma totalMessages_appends:
  "totalMessages (getAnalytics (appends inputs s)) =
     totalMessages (getAnalytics s) + length inputs"
proof (induction inputs arbitrary: s)
  case Nil
  show ?case by simp
next
  case (Cons p rest)
  obtain now m where p: "p = (now, m)" by (cases p)
  show ?case by (simp add: p Cons.IH totalMessages_addMessage)
qed

lemma userMessages_appends:
  "userMessages (getAnalytics (appends inputs s)) =
     userMessages (getAnalytics s) + length (filter (\<lambda>p. role (snd p) = User) inputs)"
proof (induction inputs arbitrary: s)
  case Nil
  show ?case by simp
next
  case (Cons p rest)
  obtain now m where p: "p = (now, m)" by (cases p)
  show ?case by (simp add: p Cons.IH userMessages_addMessage)
qed

lemma assistantMessages_appends:
  "assistantMessages (getAnalytics (appends inputs s)) =
     assistantMessages (getAnalytics s) + assistantAppends inputs"
proof (induction inputs arbitrary: s)
  case Nil
  show ?case by (simp add: assistantAppends_def)
next
  case (Cons p rest)
  obtain now m where p: "p = (now, m)" by (cases p)
  show ?case by (simp add: p Cons.IH assistantMessages_addMessage assistantAppends_def)
qed

lemma roles_partition:
  "length inputs =
     length (filter (\<lambda>p. role (snd p) = User) inputs) + assistantAppends inputs
       + systemAppends inputs"
proof (induction inputs)
  case Nil
  show ?case by (simp add: assistantAppends_def systemAppends_def)
next
  case (Cons p rest)
  then show ?case
    by (cases "role (snd p)") (simp_all add: assistantAppends_def systemAppends_def)
qed

lemma fresh_counters:
  "totalMessages (getAnalytics emptyStorage) = 0"
  "userMessages (getAnalytics emptyStorage) = 0"
  "assistantMessages (getAnalytics emptyStorage) = 0"
  "averageResponseTime (getAnalytics emptyStorage) = 0"
  "firstMessageTime (getAnalytics emptyStorage) = None"
  by (simp_all add: getAnalytics_def emptyStorage_def zeroAnalytics_def)

lemma totalMessages_split:
  "totalMessages (getAnalytics (appends inputs emptyStorage)) =
     userMessages (getAnalytics (appends inputs emptyStorage))
       + assistantMessages (getAnalytics (appends inputs emptyStorage))
       + systemAppends inputs"
  by (simp add: totalMessages_appends userMessages_appends assistantMessages_appends
        fresh_counters roles_partition [of inputs])

section \<open>The counters\<close>

text \<open>
  C1, as the code has it. \<open>totalMessages\<close> is incremented on every append, the two other
  counters only for their own role. So after each append of a run on an empty session
  (after the first \<open>n\<close> appends, for every \<open>n\<close>), \<open>totalMessages\<close> is \<open>userMessages\<close> plus
  \<open>assistantMessages\<close> plus the number of \<open>system\<close> messages appended so far; the two
  sides of the stated invariant agree exactly as long as no \<open>system\<close> message was appended.
\<close>

theorem totalMessages_accounting:
  "totalMessages (getAnalytics (appends (take n inputs) emptyStorage)) =
     userMessages (getAnalytics (appends (take n inputs) emptyStorage))
       + assistantMessages (getAnalytics (appends (take n inputs) emptyStorage))
       + systemAppends (take n inputs)"
  by (rule totalMessages_split)

text \<open>
  C1, as stated, fails on the first append of a \<open>system\<close> message: the total is 1 and the
  two role counters are 0.
\<close>

theorem totalMessages_invariant_counterexample:
  "totalMessages (getAnalytics (appends [(1, msg System ''s'')] emptyStorage)) = 1
   \<and> userMessages (getAnalytics (appends [(1, msg System ''s'')] emptyStorage))
       + assistantMessages (getAnalytics (appends [(1, msg System ''s'')] emptyStorage)) = 0"
  by (simp add: totalMessages_addMessage userMessages_addMessage assistantMessages_addMessage
        fresh_counters msg_def)

section \<open>Timestamps\<close>

text \<open>
  C7. \<open>addMessage\<close> stores the caller's message with its timestamp replaced by the clock
  reading of the call, whatever timestamp the caller supplied. So the timestamps stored
  by a run on an empty session are the clock readings of its calls, in order, and when
  the clock readings are non-decreasing so are the stored timestamps.
\<close>

theorem timestamps_from_clock:
  "getMessages (addMessage now m s) = getMessages s @ [m\<lparr>timestamp := Some now\<rparr>]
   \<and> map timestamp (getMessages (appends inputs emptyStorage)) = map (\<lambda>p. Some (fst p)) inputs
   \<and> (sorted (map fst inputs) \<longrightarrow> nonDecreasing (getMessages (appends inputs emptyStorage)))"
proof -
  have one: "getMessages (addMessage now m s) = getMessages s @ [m\<lparr>timestamp := Some now\<rparr>]"
    by (simp add: getMessages_addMessage stamp_def)
  have stored: "getMessages (appends inputs emptyStorage) = map stamp inputs"
    by (simp add: getMessages_appends getMessages_emptyStorage)
  have ts: "map timestamp (map stamp inputs) = map (\<lambda>p. Some (fst p)) inputs"
    by (simp add: stamp_def)
  have mono: "nonDecreasing (map stamp inputs)" if "sorted (map fst inputs)"
    using that by (simp add: nonDecreasing_def sorted_wrt_map stamp_def)
  show ?thesis using one stored ts mono by simp
qed

theorem timestamps_from_clock_witness:
  "sorted (map fst [(5::int, msg User ''a''\<lparr>timestamp := Some 99\<rparr>), (5, msg Assistant ''b''), (8, msg User ''c'')])
   \<and> map timestamp (getMessages (appends
        [(5, msg User ''a''\<lparr>timestamp := Some 99\<rparr>), (5, msg Assistant ''b''), (8, msg User ''c'')]
        emptyStorage)) = [Some 5, Some 5, Some 8]
   \<and> nonDecreasing (getMessages (appends
        [(5, msg User ''a''\<lparr>timestamp := Some 99\<rparr>), (5, msg Assistant ''b''), (8, msg User ''c'')]
        emptyStorage))"
  using timestamps_from_clock
    [of 0 "msg User ''a''" emptyStorage
        "[(5, msg User ''a''\<lparr>timestamp := Some 99\<rparr>), (5, msg Assistant ''b''), (8, msg User ''c'')]"]
  by simp

section \<open>Response times\<close>

lemma appends_two:
  "appends [p, q] s = addMessage (fst q) (snd q) (addMessage (fst p) (snd p) s)"
  by (cases p; cases q) simp

text \<open>
  C3. On an empty session, a user message at clock reading 1000 and an assistant message
  at 1500 give \<open>averageResponseTime = 500\<close> and \<open>assistantMessages = 1\<close>. A further
  user/assistant pair appended afterwards, at clock readings \<open>t\<close> and \<open>t + 300\<close> with \<open>t\<close>
  not before 1500, then gives \<open>averageResponseTime = 400\<close> and \<open>assistantMessages = 2\<close>.
\<close>

theorem response_time_example:
  assumes "1500 \<le> t"
  shows
    "averageResponseTime (getAnalytics
        (appends [(1000, msg User c1), (1500, msg Assistant c2)] emptyStorage)) = 500
     \<and> assistantMessages (getAnalytics
        (appends [(1000, msg User c1), (1500, msg Assistant c2)] emptyStorage)) = 1
     \<and> averageResponseTime (getAnalytics
        (appends [(t, msg User c3), (t + 300, msg Assistant c4)]
          (appends [(1000, msg User c1), (1500, msg Assistant c2)] emptyStorage))) = 400
     \<and> assistantMessages (getAnalytics
        (appends [(t, msg User c3), (t + 300, msg Assistant c4)]
          (appends [(1000, msg User c1), (1500, msg Assistant c2)] emptyStorage))) = 2"
proof -
  let ?s1 = "addMessage 1000 (msg User c1) emptyStorage"
  let ?s2 = "addMessage 1500 (msg Assistant c2) ?s1"
  let ?s3 = "addMessage t (msg User c3) ?s2"
  let ?s4 = "addMessage (t + 300) (msg Assistant c4) ?s3"
  have asst: "\<And>c. role (msg Assistant c) = Assistant"
    by (simp add: msg_def)
  have usr: "\<And>c. role (msg User c) = User"
    by (simp add: msg_def)
  have f500: "fl 500 = 500" and f800: "fl 800 = 800" and f400: "fl 400 = 400"
    by code_simp+
  have u1: "lastUserStamp ?s1 = Some 1000"
    by (simp add: lastUserStamp_addMessage usr)
  have u3: "lastUserStamp ?s3 = Some t"
    by (simp add: lastUserStamp_addMessage usr)
  have n1: "assistantMessages (getAnalytics ?s1) = 0"
    by (simp add: assistantMessages_addMessage fresh_counters usr)
  have n2: "assistantMessages (getAnalytics ?s2) = 1"
    by (subst assistantMessages_addMessage) (simp add: n1 asst)
  have n3: "assistantMessages (getAnalytics ?s3) = 1"
    by (subst assistantMessages_addMessage) (simp add: n2 usr)
  have n4: "assistantMessages (getAnalytics ?s4) = 2"
    by (subst assistantMessages_addMessage) (simp add: n3 asst)
  have a1: "averageResponseTime (getAnalytics ?s1) = 0"
    by (subst averageResponseTime_not_assistant) (simp_all add: usr fresh_counters)
  have a2: "averageResponseTime (getAnalytics ?s2) = 500"
    by (subst averageResponseTime_paired [OF asst u1]) (simp_all add: a1 n1 fl_zero f500)
  have a3: "averageResponseTime (getAnalytics ?s3) = 500"
    by (subst averageResponseTime_not_assistant) (simp_all add: usr a2)
  have a4: "averageResponseTime (getAnalytics ?s4) = 400"
    using assms
    by (subst averageResponseTime_paired [OF asst u3]) (simp_all add: a3 n3 f500 f800 f400)
  show ?thesis
    by (simp add: appends_two a2 n2 a4 n4)
qed

theorem response_time_example_witness:
  "(1500::int) \<le> 2000
   \<and> averageResponseTime (getAnalytics
        (appends [(1000, msg User ''hi''), (1500, msg Assistant ''hello'')] emptyStorage)) = 500
   \<and> assistantMessages (getAnalytics
        (appends [(1000, msg User ''hi''), (1500, msg Assistant ''hello'')] emptyStorage)) = 1
   \<and> averageResponseTime (getAnalytics
        (appends [(2000, msg User ''more''), (2300, msg Assistant ''sure'')]
          (appends [(1000, msg User ''hi''), (1500, msg Assistant ''hello'')] emptyStorage))) = 400
   \<and> assistantMessages (getAnalytics
        (appends [(2000, msg User ''more''), (2300, msg Assistant ''sure'')]
          (appends [(1000, msg User ''hi''), (1500, msg Assistant ''hello'')] emptyStorage))) = 2"
proof -
  have h: "(1500::int) \<le> 2000" by simp
  show ?thesis
    using h response_time_example [OF h, of "''hi''" "''hello''" "''more''" "''sure''"]
    by simp
qed

text \<open>
  C4. On any storage whose message history holds no user message, appending an assistant
  message leaves \<open>averageResponseTime\<close> as it was; on a session with no stored state at
  all, where it reads 0, it still reads 0 afterwards.
\<close>

theorem assistant_without_user:
  assumes "role m = Assistant" "\<forall>x \<in> set (getMessages s). role x \<noteq> User"
  shows "averageResponseTime (getAnalytics (addMessage now m s)) =
           averageResponseTime (getAnalytics s)
         \<and> averageResponseTime (getAnalytics (addMessage now m emptyStorage)) = 0"
proof -
  have "\<forall>x \<in> set (getMessages emptyStorage). role x \<noteq> User"
    by (simp add: getMessages_emptyStorage)
  then show ?thesis
    using assms(2)
    by (simp add: averageResponseTime_unpaired lastUserStamp_no_user assms(1) fresh_counters)
qed

theorem assistant_without_user_witness:
  "role (msg Assistant ''late'') = Assistant
   \<and> map role (getMessages (appends [(10, msg Assistant ''a''), (20, msg System ''b'')] emptyStorage))
       = [Assistant, System]
   \<and> averageResponseTime (getAnalytics (addMessage 30 (msg Assistant ''late'')
        (appends [(10, msg Assistant ''a''), (20, msg System ''b'')] emptyStorage))) =
      averageResponseTime (getAnalytics
        (appends [(10, msg Assistant ''a''), (20, msg System ''b'')] emptyStorage))
   \<and> averageResponseTime (getAnalytics (addMessage 30 (msg Assistant ''late'') emptyStorage)) = 0"
proof -
  have h1: "role (msg Assistant ''late'') = Assistant"
    by (simp add: msg_def)
  have h2: "\<forall>x \<in> set (getMessages (appends [(10, msg Assistant ''a''), (20, msg System ''b'')] emptyStorage)).
              role x \<noteq> User"
    by (simp add: getMessages_addMessage getMessages_emptyStorage stamp_def msg_def)
  have h3: "map role (getMessages
              (appends [(10, msg Assistant ''a''), (20, msg System ''b'')] emptyStorage))
            = [Assistant, System]"
    by (simp add: getMessages_addMessage getMessages_emptyStorage stamp_def msg_def)
  show ?thesis
    using h1 h3 assistant_without_user [OF h1 h2, of 30] by blast
qed

section \<open>The first user message\<close>

lemma appends_append: "appends (xs @ ys) s = appends ys (appends xs s)"
proof (induction xs arbitrary: s)
  case Nil
  show ?case by simp
next
  case (Cons p xs)
  then show ?case by (cases p) simp
qed

lemma firstMessageTime_kept:
  "truthy (firstMessageTime (getAnalytics s)) \<Longrightarrow>
   firstMessageTime (getAnalytics (appends inputs s)) = firstMessageTime (getAnalytics s)"
proof (induction inputs arbitrary: s)
  case Nil
  show ?case by simp
next
  case (Cons p rest)
  obtain now m where p: "p = (now, m)" by (cases p)
  have step: "firstMessageTime (getAnalytics (addMessage now m s)) =
                firstMessageTime (getAnalytics s)"
    using Cons.prems by (simp add: firstMessageTime_addMessage)
  with Cons.prems Cons.IH [of "addMessage now m s"] show ?case
    by (simp add: p)
qed

lemma firstMessageTime_no_user:
  "\<forall>p \<in> set pre. role (snd p) \<noteq> User \<Longrightarrow>
   firstMessageTime (getAnalytics (appends pre s)) = firstMessageTime (getAnalytics s)"
proof (induction pre arbitrary: s)
  case Nil
  show ?case by simp
next
  case (Cons p rest)
  obtain now m where p: "p = (now, m)" by (cases p)
  from Cons.prems have "role m \<noteq> User" by (simp add: p)
  then have "firstMessageTime (getAnalytics (addMessage now m s)) =
               firstMessageTime (getAnalytics s)"
    by (simp add: firstMessageTime_addMessage)
  with Cons.prems Cons.IH [of "addMessage now m s"] show ?case
    by (simp add: p)
qed

text \<open>
  Set once, at every clock reading but 0. Take a session in which \<open>firstMessageTime\<close> is
  unset (one with no stored state, or one just cleared), and a run on it whose first
  user message is appended at a clock reading \<open>t0\<close> other than 0. After that append and
  after every later append of the run, of whatever role, \<open>firstMessageTime\<close> is \<open>t0\<close>;
  \<open>clearMessages\<close> unsets it again.
\<close>

theorem firstMessageTime_set_once:
  assumes "firstMessageTime (getAnalytics s) = None"
    and "\<forall>p \<in> set pre. role (snd p) \<noteq> User"
    and "role m = User"
    and "t0 \<noteq> 0"
  shows "firstMessageTime (getAnalytics (appends (pre @ (t0, m) # rest) s)) = Some t0
         \<and> firstMessageTime
             (getAnalytics (clearMessages (appends (pre @ (t0, m) # rest) s))) = None"
proof -
  let ?s1 = "appends pre s"
  let ?s2 = "addMessage t0 m ?s1"
  have before: "firstMessageTime (getAnalytics ?s1) = None"
    using assms(1,2) by (simp add: firstMessageTime_no_user)
  have at: "firstMessageTime (getAnalytics ?s2) = Some t0"
    using assms(3) by (simp add: firstMessageTime_addMessage before)
  have "truthy (firstMessageTime (getAnalytics ?s2))"
    using assms(4) by (simp add: at)
  then have "firstMessageTime (getAnalytics (appends rest ?s2)) = Some t0"
    by (simp add: firstMessageTime_kept at)
  then show ?thesis
    by (simp add: appends_append clearMessages_reads zeroAnalytics_def)
qed

theorem firstMessageTime_set_once_witness:
  "firstMessageTime (getAnalytics (clearMessages (appends [(3, msg User ''old'')] emptyStorage))) = None
   \<and> map (role \<circ> snd) [(10::int, msg Assistant ''a'')] = [Assistant]
   \<and> role (msg User ''q'') = User
   \<and> (20::int) \<noteq> 0
   \<and> firstMessageTime (getAnalytics
        (appends ([(10, msg Assistant ''a'')] @ (20, msg User ''q'')
                    # [(30, msg Assistant ''r''), (40, msg User ''again'')])
           (clearMessages (appends [(3, msg User ''old'')] emptyStorage)))) = Some 20"
proof -
  have h1: "firstMessageTime
              (getAnalytics (clearMessages (appends [(3, msg User ''old'')] emptyStorage))) = None"
    by (simp add: clearMessages_reads zeroAnalytics_def)
  have h2: "\<forall>p \<in> set [(10::int, msg Assistant ''a'')]. role (snd p) \<noteq> User"
    by (simp add: msg_def)
  have h3: "role (msg User ''q'') = User"
    by (simp add: msg_def)
  have h4: "(20::int) \<noteq> 0"
    by simp
  have h2': "map (role \<circ> snd) [(10::int, msg Assistant ''a'')] = [Assistant]"
    by (simp add: msg_def)
  show ?thesis
    using h1 h2' h3 h4
      firstMessageTime_set_once [OF h1 h2 h3 h4,
        of "[(30, msg Assistant ''r''), (40, msg User ''again'')]"]
    by blast
qed


section \<open>The running mean\<close>








end
